theory Spec2Isabelle
  imports Complex_Main
begin

section \<open>JavaScript values used by the two scripts\<close>

text \<open>
  Both scripts compare and multiply JavaScript numbers. A number is modelled as a finite
  real value or NaN. Every relational operator of JavaScript is false as soon as one
  operand is NaN, and arithmetic on NaN gives NaN. Rounding to binary64, the infinities
  and the sign of zero are not represented: the decisions below are comparisons and one
  product of a margin and a ratio.
\<close>

datatype number = Val real | NaN

fun js_lt :: "number \<Rightarrow> number \<Rightarrow> bool" where
  "js_lt (Val a) (Val b) = (a < b)"
| "js_lt _ _ = False"

fun js_le :: "number \<Rightarrow> number \<Rightarrow> bool" where
  "js_le (Val a) (Val b) = (a \<le> b)"
| "js_le _ _ = False"

fun js_gt :: "number \<Rightarrow> number \<Rightarrow> bool" where
  "js_gt (Val a) (Val b) = (a > b)"
| "js_gt _ _ = False"

fun js_ge :: "number \<Rightarrow> number \<Rightarrow> bool" where
  "js_ge (Val a) (Val b) = (a \<ge> b)"
| "js_ge _ _ = False"

fun js_times :: "number \<Rightarrow> number \<Rightarrow> number" where
  "js_times (Val a) (Val b) = Val (a * b)"
| "js_times _ _ = NaN"

text \<open>\<open>Math.abs\<close>.\<close>

fun js_abs :: "number \<Rightarrow> number" where
  "js_abs (Val a) = Val \<bar>a\<bar>"
| "js_abs NaN = NaN"

text \<open>\<open>x === y\<close> on numbers: NaN is equal to nothing, itself included.\<close>

fun strict_eq :: "number \<Rightarrow> number \<Rightarrow> bool" where
  "strict_eq (Val a) (Val b) = (a = b)"
| "strict_eq _ _ = False"

text \<open>Truthiness of a number: zero and NaN are falsy.\<close>

fun truthy_number :: "number \<Rightarrow> bool" where
  "truthy_number (Val a) = (a \<noteq> 0)"
| "truthy_number NaN = False"

text \<open>
  A field of an object received from the exchange is a string or is absent
  (\<open>undefined\<close>, here \<open>None\<close>). The empty string and \<open>undefined\<close> are falsy, every
  other string is truthy, also \<open>"0"\<close>.
\<close>

type_synonym field = "string option"

definition truthy :: "field \<Rightarrow> bool" where
  "truthy v = (case v of None \<Rightarrow> False | Some s \<Rightarrow> s \<noteq> [])"

text \<open>
  Reading a string as a number is the work of the JavaScript runtime, not of the
  scripts: \<open>parseFloat(s)\<close>, and \<open>Number(s)\<close>, which is also the conversion that
  \<open>s * x\<close> applies to a string. The two readings are parameters of the model, and every
  theorem below holds for all of them. An absent field reads as NaN with both.
\<close>

record runtime =
  parseFloat_string :: "string \<Rightarrow> number"
  Number_string :: "string \<Rightarrow> number"

definition parseFloat :: "runtime \<Rightarrow> field \<Rightarrow> number" where
  "parseFloat rt v = (case v of None \<Rightarrow> NaN | Some s \<Rightarrow> parseFloat_string rt s)"

definition Number :: "runtime \<Rightarrow> field \<Rightarrow> number" where
  "Number rt v = (case v of None \<Rightarrow> NaN | Some s \<Rightarrow> Number_string rt s)"

text \<open>
  The errors the scripts throw, one constructor for each \<open>new Error(...)\<close> of the source,
  and \<open>Upstream\<close> for an error thrown by a call into the exchange SDK.
\<close>

datatype error =
    PriceNotFound
  | InvalidPositionData
  | PositionQuantityIsZero
  | NoOpenPositionFound
  | InvalidSymbolProvided
  | NotIsolatedMarginMode string
  | InsufficientBalance number number
  | Upstream string

section \<open>Market price lookup (both scripts)\<close>

text \<open>
  \<open>getMarketPrice\<close> awaits \<open>binance.fetchTicker(symbol)\<close>, takes
  \<open>ticker.last || ticker.info?.lastPrice\<close> and throws when that is falsy. The awaited
  ticker is an input of the model: \<open>Inl e\<close> when the SDK call throws. \<open>ticker.last\<close> is
  a number that the SDK has parsed, \<open>ticker.info.lastPrice\<close> the text that the exchange
  sent, so the price that comes back is a number or a string. (The entry script wraps a
  thrown error in a new message; the model keeps the error.)
\<close>

record ticker =
  ticker_last :: "number option"
  ticker_info_lastPrice :: field

datatype price = PriceNumber number | PriceText string

fun truthy_price :: "price option \<Rightarrow> bool" where
  "truthy_price None = False"
| "truthy_price (Some (PriceNumber n)) = truthy_number n"
| "truthy_price (Some (PriceText s)) = (s \<noteq> [])"

definition getMarketPrice :: "error + ticker \<Rightarrow> error + price" where
  "getMarketPrice fetched =
     (case fetched of
        Inl e \<Rightarrow> Inl e
      | Inr t \<Rightarrow>
          (let price = (if truthy_price (map_option PriceNumber (ticker_last t))
                        then map_option PriceNumber (ticker_last t)
                        else map_option PriceText (ticker_info_lastPrice t))
           in case price of
                None \<Rightarrow> Inl PriceNotFound
              | Some p \<Rightarrow> if \<not> truthy_price (Some p) then Inl PriceNotFound else Inr p))"

text \<open>The number that \<open>price < 1\<close> compares: a string is converted as \<open>Number\<close> does.\<close>

fun price_number :: "runtime \<Rightarrow> price \<Rightarrow> number" where
  "price_number rt (PriceNumber n) = n"
| "price_number rt (PriceText s) = Number_string rt s"

section \<open>Entry scanner: binance_list_open.js\<close>

text \<open>
  The constants at the head of the script. The specification passes them to the entry
  evaluator as parameters, so they are the fields of a record; \<open>source_config\<close> holds the
  values the script is shipped with. \<open>PRICE_CEILING\<close> is the literal \<open>1\<close> of the two
  tests \<open>price < 1\<close> in \<open>main\<close>.
\<close>

record config =
  MAX_ACTIVE_POSITIONS :: nat
  POSITION_USDT :: real
  SELL_RSI_THRESHOLD :: real
  BUY_RSI_THRESHOLD :: real
  SHORT :: bool
  LONG :: bool
  LEVERAGE :: real
  PRICE_CEILING :: real

definition source_config :: config where
  "source_config =
     \<lparr> MAX_ACTIVE_POSITIONS = 1, POSITION_USDT = 5, SELL_RSI_THRESHOLD = 80,
       BUY_RSI_THRESHOLD = 10, SHORT = True, LONG = False, LEVERAGE = 3,
       PRICE_CEILING = 1 \<rparr>"

definition TESTING_MODE :: bool where
  "TESTING_MODE = False"

definition AMOUNT_PER_POSITION :: "config \<Rightarrow> real" where
  "AMOUNT_PER_POSITION cfg = POSITION_USDT cfg * LEVERAGE cfg"

text \<open>
  The two branches that end the loop body of \<open>main\<close>: the result is the side that
  \<open>main\<close> passes to \<open>openPosition\<close> (\<open>'sell'\<close> or \<open>'buy'\<close>), or \<open>None\<close> when neither
  branch is taken.
\<close>

definition entry_signal :: "config \<Rightarrow> number \<Rightarrow> number \<Rightarrow> string option" where
  "entry_signal cfg rsi price =
     (if js_ge rsi (Val (SELL_RSI_THRESHOLD cfg)) \<and> \<not> TESTING_MODE
         \<and> js_lt price (Val (PRICE_CEILING cfg)) \<and> SHORT cfg
      then Some ''sell''
      else if js_le rsi (Val (BUY_RSI_THRESHOLD cfg)) \<and> js_gt rsi (Val 0) \<and> \<not> TESTING_MODE
         \<and> js_lt price (Val (PRICE_CEILING cfg)) \<and> LONG cfg
      then Some ''buy''
      else None)"

text \<open>
  \<open>openPosition(symbol, side)\<close>. Its three awaited values are inputs: the length of the
  array that \<open>futuresPositionRisk()\<close> returns, the balance that \<open>getBalance()\<close> returns
  and the ticker read by \<open>getMarketPrice\<close>. The function catches every error and logs
  it, so an error is an outcome, not a raise. \<open>Ordered\<close> carries the arguments of
  \<open>binance.createOrder\<close>; the quantity \<open>AMOUNT_PER_POSITION / price\<close> is kept as the
  pair of its dividend and its divisor.
\<close>

record new_order =
  order_symbol :: string
  order_type :: string
  order_side :: string
  order_quantity :: "real \<times> price"
  order_marginMode :: string
  order_positionSide :: string

datatype open_outcome =
    MaximumReached
  | InsufficientFunds
  | Ordered new_order
  | OpenFailed error

record open_inputs =
  positionData_length :: "error + nat"
  usdt_balance :: "error + number"
  fetched_ticker :: "error + ticker"

definition openPosition :: "config \<Rightarrow> open_inputs \<Rightarrow> string \<Rightarrow> string \<Rightarrow> open_outcome" where
  "openPosition cfg inp symbol side =
     (case positionData_length inp of
        Inl e \<Rightarrow> OpenFailed e
      | Inr n \<Rightarrow>
          if n \<ge> MAX_ACTIVE_POSITIONS cfg then MaximumReached
          else
            (case usdt_balance inp of
               Inl e \<Rightarrow> OpenFailed e
             | Inr balance \<Rightarrow>
                 if js_lt balance (Val (POSITION_USDT cfg)) then InsufficientFunds
                 else
                   (case getMarketPrice (fetched_ticker inp) of
                      Inl e \<Rightarrow> OpenFailed e
                    | Inr price \<Rightarrow>
                        (let quantity = (AMOUNT_PER_POSITION cfg, price);
                             positionSide = (if side = ''Buy'' then ''LONG'' else ''SHORT'')
                         in Ordered \<lparr> order_symbol = symbol, order_type = ''market'',
                                      order_side = side, order_quantity = quantity,
                                      order_marginMode = ''isolated'',
                                      order_positionSide = positionSide \<rparr>))))"

text \<open>
  The entry decision of the specification, read off the code: which branch \<open>main\<close>
  takes, then the cap on open positions that \<open>openPosition\<close> tests first.
  \<open>activePositionCount\<close> is the length of the array of \<open>futuresPositionRisk()\<close>, the
  number that \<open>openPosition\<close> compares. \<open>OpenShort\<close> and \<open>OpenLong\<close> name the branch
  that calls \<open>openPosition\<close> with \<open>'sell'\<close> and with \<open>'buy'\<close>; what order the call then
  sends, after the balance and the price, is the business of \<open>openPosition\<close> and
  \<open>scan_symbol\<close>, and the properties of long entries below are stated on these two.
\<close>

datatype EntryDecision = OpenLong | OpenShort | NoAction

definition evaluate :: "config \<Rightarrow> number \<Rightarrow> number \<Rightarrow> nat \<Rightarrow> EntryDecision" where
  "evaluate cfg rsi lastPrice activePositionCount =
     (case entry_signal cfg rsi lastPrice of
        None \<Rightarrow> NoAction
      | Some side \<Rightarrow>
          if activePositionCount \<ge> MAX_ACTIVE_POSITIONS cfg then NoAction
          else if side = ''sell'' then OpenShort
          else OpenLong)"

text \<open>
  The end of the loop body of \<open>main\<close> for one symbol, once the RSI and the price are
  there and the leverage and the margin mode are set: the test
  \<open>alreadyOpenedFuturesPosition(symbol)\<close> (which answers \<open>false\<close> when its own request
  fails), the two branches and the call of \<open>openPosition\<close>. \<open>None\<close>: \<open>openPosition\<close> is
  not called.
\<close>

definition scan_symbol ::
  "runtime \<Rightarrow> config \<Rightarrow> number \<Rightarrow> price \<Rightarrow> bool \<Rightarrow> open_inputs \<Rightarrow> string
     \<Rightarrow> open_outcome option"
where
  "scan_symbol rt cfg rsi price alreadyOpened inp symbol =
     (if alreadyOpened then None
      else (case entry_signal cfg rsi (price_number rt price) of
              None \<Rightarrow> None
            | Some side \<Rightarrow> Some (openPosition cfg inp symbol side)))"

section \<open>Position manager: binance_support_close.js\<close>

text \<open>
  The constants at the head of the script; \<open>source_manager_config\<close> holds the values it
  is shipped with.
\<close>

record manager_config =
  profit :: real
  supportPerPosition :: real
  excludedSymbols :: "string list"

definition source_manager_config :: manager_config where
  "source_manager_config =
     \<lparr> profit = 3 / 100, supportPerPosition = 10 / 100, excludedSymbols = [] \<rparr>"

text \<open>
  A position object of \<open>futuresPositionRisk()\<close>: the fields the script decides on. The
  exchange sends every one of them as a string. (\<open>entryPrice\<close> and \<open>markPrice\<close> are
  only printed.)
\<close>

record position =
  symbol :: field
  positionAmt :: field
  positionSide :: field
  unRealizedProfit :: field
  isolatedWallet :: field

text \<open>
  The open positions among the entries of \<open>futuresPositionRisk()\<close>, as the monitoring
  loop filters them and as \<open>alreadyOpenedFuturesPosition\<close> tests them:
  \<open>Number(p.positionAmt) !== 0\<close>. (\<open>openPosition\<close> compares the length of the whole
  array instead.)
\<close>

definition openPositions :: "runtime \<Rightarrow> position list \<Rightarrow> position list" where
  "openPositions rt positionData =
     filter (\<lambda>p. \<not> strict_eq (Number rt (positionAmt p)) (Val 0)) positionData"

text \<open>
  The test under \<open>if (fundingRate)\<close> in the monitoring loop that prints
  \<open>Profitable: YES\<close> or \<open>NO\<close>; \<open>rate\<close> is \<open>fundingRate.fundingRate\<close>, in percent.
\<close>

definition isFundingFavorable :: "field \<Rightarrow> number \<Rightarrow> bool" where
  "isFundingFavorable side rate =
     ((side = Some ''LONG'' \<and> js_lt rate (Val 0)) \<or> (side = Some ''SHORT'' \<and> js_gt rate (Val 0)))"

text \<open>
  The exit test of the monitoring loop, on the numbers that \<open>Number(...)\<close> reads from
  \<open>position.unRealizedProfit\<close> and \<open>position.isolatedWallet\<close>. \<open>ExitNoAction\<close> is the
  NoAction of the exit decision: the loop goes on to the next position.
\<close>

datatype ExitDecision = ClosePosition | ExitNoAction

definition exit_decision :: "manager_config \<Rightarrow> number \<Rightarrow> number \<Rightarrow> ExitDecision" where
  "exit_decision cfg unRealizedProfit_n isolatedWallet_n =
     (let calculatedProfit = js_times isolatedWallet_n (Val (profit cfg))
      in if js_ge unRealizedProfit_n calculatedProfit then ClosePosition else ExitNoAction)"

text \<open>
  \<open>closePosition(position)\<close>. \<open>Inl e\<close>: the function throws \<open>e\<close> and has sent no order.
  \<open>Inr o\<close>: it has called \<open>futuresMarketBuy\<close> or \<open>futuresMarketSell\<close> with the order
  \<open>o\<close> (what the exchange answers is not modelled). The ticker awaited by
  \<open>getMarketPrice\<close> is an input.
\<close>

record close_order =
  close_symbol :: string
  close_side :: string
  close_quantity :: number
  close_positionSide :: string

definition closePosition :: "runtime \<Rightarrow> error + ticker \<Rightarrow> position \<Rightarrow> error + close_order" where
  "closePosition rt fetched position =
     (if \<not> truthy (symbol position) \<or> \<not> truthy (positionAmt position)
         \<or> \<not> truthy (positionSide position)
      then Inl InvalidPositionData
      else
        (let quantity = js_abs (parseFloat rt (positionAmt position))
         in if strict_eq quantity (Val 0) then Inl PositionQuantityIsZero
            else
              (case getMarketPrice fetched of
                 Inl e \<Rightarrow> Inl e
               | Inr price \<Rightarrow>
                   (let oppositeSide =
                          (if positionSide position = Some ''LONG'' then ''SELL'' else ''BUY'')
                    in Inr \<lparr> close_symbol = the (symbol position), close_side = oppositeSide,
                             close_quantity = quantity,
                             close_positionSide = the (positionSide position) \<rparr>))))"

text \<open>
  The body of the monitoring loop for one open position, after the printing: the
  excluded symbols are skipped, and a position whose profit has reached the target is
  closed. \<open>None\<close>: \<open>closePosition\<close> is not called.
\<close>

definition monitor_position ::
  "runtime \<Rightarrow> manager_config \<Rightarrow> error + ticker \<Rightarrow> position \<Rightarrow> (error + close_order) option"
where
  "monitor_position rt cfg fetched position =
     (if (case symbol position of None \<Rightarrow> False | Some s \<Rightarrow> s \<in> set (excludedSymbols cfg))
      then None
      else
        (case exit_decision cfg (Number rt (unRealizedProfit position))
                (Number rt (isolatedWallet position)) of
           ClosePosition \<Rightarrow> Some (closePosition rt fetched position)
         | ExitNoAction \<Rightarrow> None))"

text \<open>
  \<open>addMarginToPosition(position)\<close>, which the monitoring loop does not call. The
  function catches what its body throws and logs it. \<open>Inl e\<close>: the body throws \<open>e\<close>.
  \<open>Inr a\<close>: the body runs to its end and announces the addition of \<open>a\<close> USDT (the
  request that would add it is commented out in the source). The awaited values are
  inputs: the balance of \<open>getBalance()\<close>, and whether the two later requests
  (\<open>fapiPrivateGetPositionSideDual\<close>, \<open>fetchPositions\<close>) throw.
\<close>

record margin_inputs =
  margin_balance :: "error + number"
  positionSideDual :: "error option"
  updatedPosition :: "error option"

definition addMarginToPosition ::
  "runtime \<Rightarrow> manager_config \<Rightarrow> margin_inputs \<Rightarrow> position option \<Rightarrow> error + number"
where
  "addMarginToPosition rt cfg inp pos =
     (case pos of
        None \<Rightarrow> Inl NoOpenPositionFound
      | Some position \<Rightarrow>
          if \<not> truthy (symbol position) then Inl InvalidSymbolProvided
          else if isolatedWallet position = Some ''0''
          then Inl (NotIsolatedMarginMode (the (symbol position)))
          else
            (case margin_balance inp of
               Inl e \<Rightarrow> Inl e
             | Inr usdtBalance \<Rightarrow>
                 (let amount = isolatedWallet position;
                      amountForSupport = js_times (Number rt amount) (Val (supportPerPosition cfg))
                  in if js_lt usdtBalance amountForSupport
                     then Inl (InsufficientBalance usdtBalance amountForSupport)
                     else
                       (case positionSideDual inp of
                          Some e \<Rightarrow> Inl e
                        | None \<Rightarrow>
                            (case updatedPosition inp of
                               Some e \<Rightarrow> Inl e
                             | None \<Rightarrow> Inr amountForSupport)))))"

section \<open>A runtime for the examples\<close>

text \<open>
  The examples need a concrete reading of strings. \<open>read_decimal\<close> reads a plain decimal
  numeral (an optional minus sign, digits, an optional fraction part), the form in which
  the exchange sends amounts and on which \<open>parseFloat\<close> and \<open>Number\<close> agree. On any other
  string it gives NaN, so it stands for the two JavaScript readings on plain decimal
  numerals only; the examples use no other string.
\<close>

definition digit_of :: "char \<Rightarrow> nat option" where
  "digit_of c = map_of (zip ''0123456789'' [0, 1, 2, 3, 4, 5, 6, 7, 8, 9]) c"

fun digits_value :: "string \<Rightarrow> nat \<Rightarrow> nat option" where
  "digits_value [] acc = Some acc"
| "digits_value (c # cs) acc =
     (case digit_of c of None \<Rightarrow> None | Some d \<Rightarrow> digits_value cs (10 * acc + d))"

definition plain_decimal :: "string \<Rightarrow> real option" where
  "plain_decimal s =
     (let whole = takeWhile (\<lambda>c. c \<noteq> CHR ''.'') s;
          rest = dropWhile (\<lambda>c. c \<noteq> CHR ''.'') s
      in if whole = [] then None
         else (case digits_value whole 0 of
                 None \<Rightarrow> None
               | Some a \<Rightarrow>
                   (case rest of
                      [] \<Rightarrow> Some (real a)
                    | dot # fraction \<Rightarrow>
                        if fraction = [] then None
                        else (case digits_value fraction 0 of
                                None \<Rightarrow> None
                              | Some b \<Rightarrow> Some (real a + real b / 10 ^ length fraction)))))"

definition read_decimal :: "string \<Rightarrow> number" where
  "read_decimal s =
     (if s \<noteq> [] \<and> hd s = CHR ''-''
      then (case plain_decimal (tl s) of None \<Rightarrow> NaN | Some r \<Rightarrow> Val (- r))
      else (case plain_decimal s of None \<Rightarrow> NaN | Some r \<Rightarrow> Val r))"

definition decimal_runtime :: runtime where
  "decimal_runtime = \<lparr> parseFloat_string = read_decimal, Number_string = read_decimal \<rparr>"

text \<open>The shipped entry configuration with long entries switched on.\<close>

definition long_enabled_config :: config where
  "long_enabled_config = source_config \<lparr> LONG := True \<rparr>"

text \<open>Two open positions and two tickers for the examples.\<close>

definition long_position :: position where
  "long_position =
     \<lparr> symbol = Some ''DOGEUSDT'', positionAmt = Some ''5'', positionSide = Some ''LONG'',
       unRealizedProfit = Some ''3.5'', isolatedWallet = Some ''100'' \<rparr>"

definition short_position :: position where
  "short_position =
     \<lparr> symbol = Some ''DOGEUSDT'', positionAmt = Some ''-5'', positionSide = Some ''SHORT'',
       unRealizedProfit = Some ''2.9'', isolatedWallet = Some ''100'' \<rparr>"

definition priced_ticker :: "error + ticker" where
  "priced_ticker = Inr \<lparr> ticker_last = Some (Val (1 / 2)), ticker_info_lastPrice = Some ''0.5'' \<rparr>"

definition unpriced_ticker :: "error + ticker" where
  "unpriced_ticker = Inr \<lparr> ticker_last = None, ticker_info_lastPrice = None \<rparr>"

text \<open>
  What \<open>openPosition\<close> awaits when the account has no entry in the position list and a
  balance of 100 USDT, and an entry of the position list with no amount.
\<close>

definition funded_inputs :: open_inputs where
  "funded_inputs =
     \<lparr> positionData_length = Inr 0, usdt_balance = Inr (Val 100),
       fetched_ticker = priced_ticker \<rparr>"

definition flat_position :: position where
  "flat_position =
     \<lparr> symbol = Some ''BTCUSDT'', positionAmt = Some ''0'', positionSide = Some ''LONG'',
       unRealizedProfit = Some ''0'', isolatedWallet = Some ''0'' \<rparr>"

definition margin_ok :: "real \<Rightarrow> margin_inputs" where
  "margin_ok b =
     \<lparr> margin_balance = Inr (Val b), positionSideDual = None, updatedPosition = None \<rparr>"

section \<open>Comparisons of numbers\<close>

lemma js_lt_imp_le: "js_lt a b \<Longrightarrow> js_le a b"
  by (cases a; cases b) simp_all

lemma js_ge_not_lt: "js_ge a b \<Longrightarrow> \<not> js_lt a b"
  by (cases a; cases b) simp_all

lemma js_le_not_gt: "js_le a b \<Longrightarrow> \<not> js_gt a b"
  by (cases a; cases b) simp_all

lemma js_ge_trans_le: "js_le p1 p2 \<Longrightarrow> js_ge p1 t \<Longrightarrow> js_ge p2 t"
  by (cases p1; cases p2; cases t) simp_all

lemmas reading = read_decimal_def plain_decimal_def digit_of_def decimal_runtime_def
  parseFloat_def Number_def

lemma read_decimal_examples:
  "read_decimal ''3.5'' = Val (7 / 2)" "read_decimal ''-5'' = Val (- 5)"
  "read_decimal ''100'' = Val 100" "read_decimal ''0'' = Val 0" "read_decimal ''USDT'' = NaN"
  by (simp_all add: reading)

section \<open>Properties of the entry scanner\<close>

lemma getMarketPrice_truthy: "getMarketPrice fetched = Inr p \<Longrightarrow> truthy_price (Some p)"
  by (auto simp: getMarketPrice_def Let_def split: sum.splits option.splits if_splits)

lemma entry_signal_cases:
  "entry_signal cfg rsi price = None \<or> entry_signal cfg rsi price = Some ''sell''
   \<or> entry_signal cfg rsi price = Some ''buy''"
  by (simp add: entry_signal_def)

text \<open>
  The long rule as the script runs it, from the branch of \<open>main\<close> to the order:
  \<open>0 < rsi \<le> BUY_RSI_THRESHOLD\<close>, a price under the ceiling, long entries enabled and
  the short rule not satisfied take the branch that calls \<open>openPosition(symbol, 'buy')\<close>;
  with no open position on the symbol, fewer entries in the position list than the
  maximum, a balance that covers \<open>POSITION_USDT\<close> and a price, \<open>openPosition\<close> sends the
  order below. Its side is \<open>'buy'\<close> and its position side is SHORT, since \<open>'buy'\<close> is
  not \<open>'Buy'\<close>.
\<close>

lemma long_branch_order:
  assumes rsi: "js_le rsi (Val (BUY_RSI_THRESHOLD cfg))" "js_gt rsi (Val 0)"
    and price: "js_lt (price_number rt price) (Val (PRICE_CEILING cfg))"
    and enabled: "LONG cfg"
    and no_short: "\<not> (js_ge rsi (Val (SELL_RSI_THRESHOLD cfg))
            \<and> js_lt (price_number rt price) (Val (PRICE_CEILING cfg)) \<and> SHORT cfg)"
    and fresh: "\<not> alreadyOpened"
    and room: "positionData_length inp = Inr n" "n < MAX_ACTIVE_POSITIONS cfg"
    and funds: "usdt_balance inp = Inr b" "\<not> js_lt b (Val (POSITION_USDT cfg))"
    and quote: "getMarketPrice (fetched_ticker inp) = Inr price'"
  shows "scan_symbol rt cfg rsi price alreadyOpened inp smb =
           Some (Ordered \<lparr> order_symbol = smb, order_type = ''market'', order_side = ''buy'',
                           order_quantity = (AMOUNT_PER_POSITION cfg, price'),
                           order_marginMode = ''isolated'', order_positionSide = ''SHORT'' \<rparr>)"
proof -
  have branch: "entry_signal cfg rsi (price_number rt price) = Some ''buy''"
    using rsi price enabled no_short by (simp add: entry_signal_def TESTING_MODE_def)
  have "openPosition cfg inp smb ''buy'' =
           Ordered \<lparr> order_symbol = smb, order_type = ''market'', order_side = ''buy'',
                     order_quantity = (AMOUNT_PER_POSITION cfg, price'),
                     order_marginMode = ''isolated'', order_positionSide = ''SHORT'' \<rparr>"
    using room funds quote by (simp add: openPosition_def)
  with branch fresh show ?thesis
    by (simp add: scan_symbol_def)
qed

text \<open>
  The entry decision is the decision of the loop body: an order that \<open>scan_symbol\<close> sends
  is a sell order exactly when the decision is OpenShort and a buy order exactly when it
  is OpenLong, and a decision other than NoAction becomes an order as soon as the symbol
  has no open position yet, the balance covers \<open>POSITION_USDT\<close> and the price is found.
\<close>

lemma scan_symbol_order_decision:
  assumes "scan_symbol rt cfg rsi price alreadyOpened inp smb = Some (Ordered ord)"
  shows "\<exists>n. positionData_length inp = Inr n \<and> \<not> alreadyOpened
           \<and> evaluate cfg rsi (price_number rt price) n
               = (if order_side ord = ''sell'' then OpenShort else OpenLong)"
proof -
  from assms obtain side where
    already: "\<not> alreadyOpened"
    and side: "entry_signal cfg rsi (price_number rt price) = Some side"
    and opened: "openPosition cfg inp smb side = Ordered ord"
    by (auto simp: scan_symbol_def split: if_splits option.splits)
  from opened obtain n where
    n: "positionData_length inp = Inr n" and room: "\<not> MAX_ACTIVE_POSITIONS cfg \<le> n"
    and sent: "order_side ord = side"
    by (auto simp: openPosition_def Let_def split: sum.splits if_splits)
  from side have "side = ''sell'' \<or> side = ''buy''"
    using entry_signal_cases [of cfg rsi "price_number rt price"] by auto
  with side room sent
  have "evaluate cfg rsi (price_number rt price) n
          = (if order_side ord = ''sell'' then OpenShort else OpenLong)"
    by (auto simp: evaluate_def)
  with n already show ?thesis by blast
qed

lemma decision_is_ordered:
  assumes "\<not> alreadyOpened" and "positionData_length inp = Inr n"
    and "evaluate cfg rsi (price_number rt price) n \<noteq> NoAction"
    and "usdt_balance inp = Inr b" and "\<not> js_lt b (Val (POSITION_USDT cfg))"
    and "getMarketPrice (fetched_ticker inp) = Inr price'"
  shows "\<exists>ord. scan_symbol rt cfg rsi price alreadyOpened inp smb = Some (Ordered ord)"
proof (cases "entry_signal cfg rsi (price_number rt price)")
  case None
  with assms(3) show ?thesis by (simp add: evaluate_def)
next
  case (Some side)
  with assms(3) have "\<not> MAX_ACTIVE_POSITIONS cfg \<le> n"
    by (auto simp: evaluate_def split: if_splits)
  with assms Some show ?thesis
    by (simp add: scan_symbol_def openPosition_def Let_def)
qed

text \<open>
  Two facts of the shipped script that bear on long entries. \<open>main\<close> passes the side
  \<open>'buy'\<close>, which \<open>openPosition\<close> compares with \<open>'Buy'\<close>: a buy order carries the position
  side SHORT. And \<open>LONG\<close> is \<open>false\<close> in the shipped configuration, which never decides
  OpenLong.
\<close>

lemma buy_order_positionSide:
  "openPosition cfg inp smb ''buy'' = Ordered ord \<Longrightarrow> order_positionSide ord = ''SHORT''"
  by (auto simp: openPosition_def Let_def split: sum.splits if_splits)

lemma shipped_config_never_long: "evaluate source_config rsi price n \<noteq> OpenLong"
  by (simp add: evaluate_def entry_signal_def source_config_def)

lemma short_scenario: "evaluate source_config (Val 85) (Val (1 / 2)) 0 = OpenShort"
  by (simp add: evaluate_def entry_signal_def source_config_def TESTING_MODE_def)

text \<open>
  C1, as the code has it: at \<open>rsi = BUY_RSI_THRESHOLD\<close> exactly, with \<open>0 < rsi\<close>, a price
  under the ceiling, long entries enabled, fewer entries in the position list than the
  maximum and the short rule not satisfied, the result is not NoAction. The long branch
  of \<open>main\<close> tests \<open>rsi <= BUY_RSI_THRESHOLD\<close>, so the threshold itself is a long
  signal: \<open>main\<close> calls \<open>openPosition(symbol, 'buy')\<close>, which sends a market buy order
  for the symbol when the symbol has no open position, the balance covers
  \<open>POSITION_USDT\<close> and the price is found.
\<close>

theorem threshold_rsi_sends_buy_order:
  "rsi = Val (BUY_RSI_THRESHOLD cfg) \<Longrightarrow> js_gt rsi (Val 0) \<Longrightarrow>
   js_lt (price_number rt price) (Val (PRICE_CEILING cfg)) \<Longrightarrow> LONG cfg \<Longrightarrow>
   positionData_length inp = Inr activePositionCount \<Longrightarrow>
   activePositionCount < MAX_ACTIVE_POSITIONS cfg \<Longrightarrow>
   \<not> (js_ge rsi (Val (SELL_RSI_THRESHOLD cfg))
       \<and> js_lt (price_number rt price) (Val (PRICE_CEILING cfg)) \<and> SHORT cfg) \<Longrightarrow>
   \<not> alreadyOpened \<Longrightarrow> usdt_balance inp = Inr b \<Longrightarrow> \<not> js_lt b (Val (POSITION_USDT cfg)) \<Longrightarrow>
   getMarketPrice (fetched_ticker inp) = Inr price' \<Longrightarrow>
   entry_signal cfg rsi (price_number rt price) = Some ''buy''
   \<and> (\<exists>ord. scan_symbol rt cfg rsi price alreadyOpened inp smb = Some (Ordered ord)
          \<and> order_symbol ord = smb \<and> order_type ord = ''market'' \<and> order_side ord = ''buy'')"
proof -
  assume at: "rsi = Val (BUY_RSI_THRESHOLD cfg)" and pos: "js_gt rsi (Val 0)"
    and under: "js_lt (price_number rt price) (Val (PRICE_CEILING cfg))" and on: "LONG cfg"
    and len: "positionData_length inp = Inr activePositionCount"
    and room: "activePositionCount < MAX_ACTIVE_POSITIONS cfg"
    and no_short: "\<not> (js_ge rsi (Val (SELL_RSI_THRESHOLD cfg))
       \<and> js_lt (price_number rt price) (Val (PRICE_CEILING cfg)) \<and> SHORT cfg)"
    and fresh: "\<not> alreadyOpened" and bal: "usdt_balance inp = Inr b"
    and enough: "\<not> js_lt b (Val (POSITION_USDT cfg))"
    and quote: "getMarketPrice (fetched_ticker inp) = Inr price'"
  from at have le: "js_le rsi (Val (BUY_RSI_THRESHOLD cfg))" by simp
  from le pos under on no_short
  have "entry_signal cfg rsi (price_number rt price) = Some ''buy''"
    by (simp add: entry_signal_def TESTING_MODE_def)
  moreover
  have "scan_symbol rt cfg rsi price alreadyOpened inp smb =
           Some (Ordered \<lparr> order_symbol = smb, order_type = ''market'', order_side = ''buy'',
                           order_quantity = (AMOUNT_PER_POSITION cfg, price'),
                           order_marginMode = ''isolated'', order_positionSide = ''SHORT'' \<rparr>)"
    using le pos under on no_short fresh len room bal enough quote
    by (rule long_branch_order)
  ultimately show ?thesis by simp
qed

theorem threshold_rsi_sends_buy_order_witness:
  "Val 10 = Val (BUY_RSI_THRESHOLD long_enabled_config) \<and> js_gt (Val 10) (Val 0)
   \<and> js_lt (price_number decimal_runtime (PriceNumber (Val (1 / 2))))
        (Val (PRICE_CEILING long_enabled_config))
   \<and> LONG long_enabled_config
   \<and> positionData_length funded_inputs = Inr 0 \<and> 0 < MAX_ACTIVE_POSITIONS long_enabled_config
   \<and> \<not> (js_ge (Val 10) (Val (SELL_RSI_THRESHOLD long_enabled_config))
         \<and> js_lt (price_number decimal_runtime (PriceNumber (Val (1 / 2))))
              (Val (PRICE_CEILING long_enabled_config))
         \<and> SHORT long_enabled_config)
   \<and> usdt_balance funded_inputs = Inr (Val 100)
   \<and> \<not> js_lt (Val 100) (Val (POSITION_USDT long_enabled_config))
   \<and> getMarketPrice (fetched_ticker funded_inputs) = Inr (PriceNumber (Val (1 / 2)))
   \<and> entry_signal long_enabled_config (Val 10)
        (price_number decimal_runtime (PriceNumber (Val (1 / 2)))) = Some ''buy''
   \<and> (\<exists>ord. scan_symbol decimal_runtime long_enabled_config (Val 10)
              (PriceNumber (Val (1 / 2))) False funded_inputs ''DOGEUSDT'' = Some (Ordered ord)
          \<and> order_symbol ord = ''DOGEUSDT'' \<and> order_type ord = ''market''
          \<and> order_side ord = ''buy'')"
proof -
  have quote: "getMarketPrice (fetched_ticker funded_inputs) = Inr (PriceNumber (Val (1 / 2)))"
    by (simp add: funded_inputs_def priced_ticker_def getMarketPrice_def)
  have setting: "BUY_RSI_THRESHOLD long_enabled_config = 10"
    "PRICE_CEILING long_enabled_config = 1" "LONG long_enabled_config"
    "MAX_ACTIVE_POSITIONS long_enabled_config = 1" "SELL_RSI_THRESHOLD long_enabled_config = 80"
    "POSITION_USDT long_enabled_config = 5"
    by (simp_all add: long_enabled_config_def source_config_def)
  have awaited: "positionData_length funded_inputs = Inr 0"
    "usdt_balance funded_inputs = Inr (Val 100)"
    by (simp_all add: funded_inputs_def)
  show ?thesis
    using threshold_rsi_sends_buy_order [of "Val 10" long_enabled_config decimal_runtime
        "PriceNumber (Val (1 / 2))" funded_inputs 0 False "Val 100"
        "PriceNumber (Val (1 / 2))" "''DOGEUSDT''"]
    by (simp add: quote setting awaited)
qed

text \<open>
  The claim C1 as it is stated (NoAction at the threshold) fails: RSI 10 with the
  threshold 10, price 0.5 under the ceiling 1, long entries enabled, an empty position
  list, RSI under the sell threshold 80 and a balance of 100. Every condition of the
  claim holds, the decision is not NoAction, and \<open>openPosition\<close> sends the order that the
  code builds for \<open>'buy'\<close>.
\<close>

theorem buy_threshold_counterexample:
  "Val 10 = Val (BUY_RSI_THRESHOLD long_enabled_config) \<and> js_gt (Val 10) (Val 0)
   \<and> js_lt (Val (1 / 2)) (Val (PRICE_CEILING long_enabled_config)) \<and> LONG long_enabled_config
   \<and> 0 < MAX_ACTIVE_POSITIONS long_enabled_config
   \<and> \<not> (js_ge (Val 10) (Val (SELL_RSI_THRESHOLD long_enabled_config))
         \<and> js_lt (Val (1 / 2)) (Val (PRICE_CEILING long_enabled_config))
         \<and> SHORT long_enabled_config)
   \<and> evaluate long_enabled_config (Val 10) (Val (1 / 2)) 0 \<noteq> NoAction
   \<and> scan_symbol decimal_runtime long_enabled_config (Val 10) (PriceNumber (Val (1 / 2))) False
        funded_inputs ''DOGEUSDT''
       = Some (Ordered \<lparr> order_symbol = ''DOGEUSDT'', order_type = ''market'',
                         order_side = ''buy'',
                         order_quantity = (15, PriceNumber (Val (1 / 2))),
                         order_marginMode = ''isolated'', order_positionSide = ''SHORT'' \<rparr>)"
  by (simp add: long_enabled_config_def source_config_def evaluate_def entry_signal_def
      TESTING_MODE_def scan_symbol_def openPosition_def funded_inputs_def priced_ticker_def
      getMarketPrice_def AMOUNT_PER_POSITION_def)

text \<open>
  C3: when the number of positions has reached the maximum, the entry decision is
  NoAction whatever the RSI, the price and the enabled flags are; \<open>openPosition\<close> stops
  at its first test for either side, and the loop body sends no order.
\<close>

theorem position_cap_dominates:
  "MAX_ACTIVE_POSITIONS cfg \<le> activePositionCount \<Longrightarrow>
     evaluate cfg rsi lastPrice activePositionCount = NoAction
     \<and> openPosition cfg (inp \<lparr> positionData_length := Inr activePositionCount \<rparr>) smb side
         = MaximumReached
     \<and> scan_symbol rt cfg rsi price alreadyOpened
         (inp \<lparr> positionData_length := Inr activePositionCount \<rparr>) smb \<noteq> Some (Ordered ord)"
  by (simp add: evaluate_def openPosition_def scan_symbol_def split: option.splits)

theorem position_cap_dominates_witness:
  "MAX_ACTIVE_POSITIONS source_config \<le> 1
   \<and> evaluate source_config (Val 85) (Val (1 / 2)) 1 = NoAction
   \<and> entry_signal source_config (Val 85) (Val (1 / 2)) = Some ''sell''"
  using position_cap_dominates [of source_config 1 "Val 85" "Val (1 / 2)"]
  by (simp add: source_config_def entry_signal_def TESTING_MODE_def)

text \<open>
  C4 says that every RSI strictly between 0 and \<open>BUY_RSI_THRESHOLD\<close>, with a price under
  the ceiling, long entries enabled, fewer positions than the maximum and the short rule
  not satisfied, gives OpenLong. The code takes its long branch there and misses the
  long position: \<open>main\<close> passes \<open>'buy'\<close>, \<open>openPosition\<close> compares the side with
  \<open>'Buy'\<close> (the spelling of its own documentation), and the market buy order that it
  sends, when the symbol has no open position, the balance covers \<open>POSITION_USDT\<close> and
  the price is found, carries the position side SHORT.
\<close>

theorem long_signal_orders_short_side:
  "js_gt rsi (Val 0) \<Longrightarrow> js_lt rsi (Val (BUY_RSI_THRESHOLD cfg)) \<Longrightarrow>
   js_lt (price_number rt price) (Val (PRICE_CEILING cfg)) \<Longrightarrow> LONG cfg \<Longrightarrow>
   positionData_length inp = Inr activePositionCount \<Longrightarrow>
   activePositionCount < MAX_ACTIVE_POSITIONS cfg \<Longrightarrow>
   \<not> (js_ge rsi (Val (SELL_RSI_THRESHOLD cfg))
       \<and> js_lt (price_number rt price) (Val (PRICE_CEILING cfg)) \<and> SHORT cfg) \<Longrightarrow>
   \<not> alreadyOpened \<Longrightarrow> usdt_balance inp = Inr b \<Longrightarrow> \<not> js_lt b (Val (POSITION_USDT cfg)) \<Longrightarrow>
   getMarketPrice (fetched_ticker inp) = Inr price' \<Longrightarrow>
   scan_symbol rt cfg rsi price alreadyOpened inp smb =
     Some (Ordered \<lparr> order_symbol = smb, order_type = ''market'', order_side = ''buy'',
                     order_quantity = (AMOUNT_PER_POSITION cfg, price'),
                     order_marginMode = ''isolated'', order_positionSide = ''SHORT'' \<rparr>)"
  by (rule long_branch_order) (simp_all add: js_lt_imp_le)

theorem long_signal_orders_short_side_witness:
  "js_gt (Val 5) (Val 0) \<and> js_lt (Val 5) (Val (BUY_RSI_THRESHOLD long_enabled_config))
   \<and> js_lt (price_number decimal_runtime (PriceNumber (Val (1 / 2))))
        (Val (PRICE_CEILING long_enabled_config))
   \<and> LONG long_enabled_config
   \<and> positionData_length funded_inputs = Inr 0 \<and> 0 < MAX_ACTIVE_POSITIONS long_enabled_config
   \<and> \<not> (js_ge (Val 5) (Val (SELL_RSI_THRESHOLD long_enabled_config))
         \<and> js_lt (price_number decimal_runtime (PriceNumber (Val (1 / 2))))
              (Val (PRICE_CEILING long_enabled_config))
         \<and> SHORT long_enabled_config)
   \<and> usdt_balance funded_inputs = Inr (Val 100)
   \<and> \<not> js_lt (Val 100) (Val (POSITION_USDT long_enabled_config))
   \<and> getMarketPrice (fetched_ticker funded_inputs) = Inr (PriceNumber (Val (1 / 2)))
   \<and> scan_symbol decimal_runtime long_enabled_config (Val 5) (PriceNumber (Val (1 / 2))) False
        funded_inputs ''DOGEUSDT''
       = Some (Ordered \<lparr> order_symbol = ''DOGEUSDT'', order_type = ''market'',
                         order_side = ''buy'',
                         order_quantity = (15, PriceNumber (Val (1 / 2))),
                         order_marginMode = ''isolated'', order_positionSide = ''SHORT'' \<rparr>)"
proof -
  have quote: "getMarketPrice (fetched_ticker funded_inputs) = Inr (PriceNumber (Val (1 / 2)))"
    by (simp add: funded_inputs_def priced_ticker_def getMarketPrice_def)
  have setting: "BUY_RSI_THRESHOLD long_enabled_config = 10"
    "PRICE_CEILING long_enabled_config = 1" "LONG long_enabled_config"
    "MAX_ACTIVE_POSITIONS long_enabled_config = 1" "SELL_RSI_THRESHOLD long_enabled_config = 80"
    "POSITION_USDT long_enabled_config = 5" "AMOUNT_PER_POSITION long_enabled_config = 15"
    by (simp_all add: long_enabled_config_def source_config_def AMOUNT_PER_POSITION_def)
  have awaited: "positionData_length funded_inputs = Inr 0"
    "usdt_balance funded_inputs = Inr (Val 100)"
    by (simp_all add: funded_inputs_def)
  show ?thesis
    using long_signal_orders_short_side [of "Val 5" long_enabled_config decimal_runtime
        "PriceNumber (Val (1 / 2))" funded_inputs 0 False "Val 100"
        "PriceNumber (Val (1 / 2))" "''DOGEUSDT''"]
    by (simp add: quote setting awaited)
qed

text \<open>
  A second slip on the same path: the cap of \<open>openPosition\<close> counts every entry of the
  position list, while the monitoring loop and \<open>alreadyOpenedFuturesPosition\<close> count the
  entries with an amount. With one entry of amount zero there is no open position, and
  \<open>openPosition\<close> reports the maximum as reached.
\<close>

lemma cap_counts_flat_entries:
  "openPositions decimal_runtime [flat_position] = []"
  "length [flat_position] = 1"
  "openPosition long_enabled_config
     (funded_inputs \<lparr> positionData_length := Inr (length [flat_position]) \<rparr>) ''DOGEUSDT'' ''buy''
     = MaximumReached"
  by (simp_all add: openPositions_def flat_position_def openPosition_def
      long_enabled_config_def source_config_def reading)

text \<open>
  C5: for every RSI at or above \<open>SELL_RSI_THRESHOLD\<close> and every price at or above the
  ceiling, the entry decision is NoAction: neither branch of \<open>main\<close> is taken, so no
  short (and no long) is opened at or above the ceiling.
\<close>

theorem price_ceiling_dominates:
  "js_ge rsi (Val (SELL_RSI_THRESHOLD cfg)) \<Longrightarrow> js_ge lastPrice (Val (PRICE_CEILING cfg)) \<Longrightarrow>
   evaluate cfg rsi lastPrice activePositionCount = NoAction
   \<and> entry_signal cfg rsi lastPrice = None"
  by (simp add: evaluate_def entry_signal_def js_ge_not_lt)

theorem price_ceiling_dominates_witness:
  "js_ge (Val 85) (Val (SELL_RSI_THRESHOLD source_config))
   \<and> js_ge (Val 1) (Val (PRICE_CEILING source_config))
   \<and> evaluate source_config (Val 85) (Val 1) 0 = NoAction"
  using price_ceiling_dominates [of "Val 85" source_config "Val 1" 0]
  by (simp add: source_config_def)

text \<open>
  C8: for every RSI that is zero or negative, the entry decision is never OpenLong,
  whatever the price, the ceiling, the long flag and the number of positions are: the
  long branch of \<open>main\<close> requires \<open>rsi > 0\<close>.
\<close>

theorem nonpositive_rsi_never_long:
  "js_le rsi (Val 0) \<Longrightarrow>
   evaluate cfg rsi lastPrice activePositionCount \<noteq> OpenLong
   \<and> entry_signal cfg rsi lastPrice \<noteq> Some ''buy''"
  by (simp add: evaluate_def entry_signal_def js_le_not_gt)

theorem nonpositive_rsi_never_long_witness:
  "js_le (Val 0) (Val 0)
   \<and> evaluate long_enabled_config (Val 0) (Val (1 / 2)) 0 \<noteq> OpenLong
   \<and> evaluate long_enabled_config (Val 0) (Val (1 / 2)) 0 = NoAction"
  using nonpositive_rsi_never_long [of "Val 0" long_enabled_config "Val (1 / 2)" 0]
  by (simp add: long_enabled_config_def source_config_def evaluate_def entry_signal_def)

section \<open>Properties of the position manager\<close>

text \<open>
  The monitoring loop calls \<open>closePosition\<close> exactly when the symbol is not excluded and
  the exit decision, on the numbers read from the position, is ClosePosition. The shipped
  list of excluded symbols is empty.
\<close>

lemma monitor_position_closes:
  "monitor_position rt cfg fetched p = Some r \<longleftrightarrow>
     (case symbol p of None \<Rightarrow> True | Some s \<Rightarrow> s \<notin> set (excludedSymbols cfg))
     \<and> exit_decision cfg (Number rt (unRealizedProfit p)) (Number rt (isolatedWallet p))
         = ClosePosition
     \<and> r = closePosition rt fetched p"
  by (auto simp: monitor_position_def split: option.splits ExitDecision.splits)

lemma monitor_position_shipped:
  "monitor_position rt source_manager_config fetched p =
     (if exit_decision source_manager_config (Number rt (unRealizedProfit p))
           (Number rt (isolatedWallet p)) = ClosePosition
      then Some (closePosition rt fetched p) else None)"
  by (simp add: monitor_position_def source_manager_config_def
      split: option.splits ExitDecision.splits)

text \<open>
  C2: the exit decision is ClosePosition exactly when
  \<open>unrealizedProfit >= isolatedMargin * profitRatio\<close> and NoAction otherwise, and the
  shipped monitoring loop calls \<open>closePosition\<close> in exactly that case. With the shipped
  ratio 0.03 and margin 100, profit 3.5 closes and profit 2.9 does not. With a margin of
  zero every profit that is zero or more closes.
\<close>

theorem exit_rule:
  "(exit_decision cfg u m = ClosePosition \<longleftrightarrow> js_ge u (js_times m (Val (profit cfg))))
   \<and> (exit_decision cfg u m = ExitNoAction \<longleftrightarrow> \<not> js_ge u (js_times m (Val (profit cfg))))
   \<and> (monitor_position rt source_manager_config fetched pos
         = Some (closePosition rt fetched pos) \<longleftrightarrow>
       js_ge (Number rt (unRealizedProfit pos))
         (js_times (Number rt (isolatedWallet pos)) (Val (3 / 100))))
   \<and> exit_decision source_manager_config (Val (35 / 10)) (Val 100) = ClosePosition
   \<and> exit_decision source_manager_config (Val (29 / 10)) (Val 100) = ExitNoAction
   \<and> (0 \<le> p \<longrightarrow> exit_decision cfg (Val p) (Val 0) = ClosePosition)"
proof -
  have rule: "exit_decision c x y = ClosePosition \<longleftrightarrow> js_ge x (js_times y (Val (profit c)))"
    for c x y
    by (simp add: exit_decision_def)
  have other: "exit_decision c x y = ExitNoAction \<longleftrightarrow> exit_decision c x y \<noteq> ClosePosition"
    for c x y
    by (cases "exit_decision c x y") simp_all
  have ratio: "profit source_manager_config = 3 / 100"
    by (simp add: source_manager_config_def)
  have loop: "monitor_position rt source_manager_config fetched pos
         = Some (closePosition rt fetched pos) \<longleftrightarrow>
       js_ge (Number rt (unRealizedProfit pos))
         (js_times (Number rt (isolatedWallet pos)) (Val (3 / 100)))"
    by (simp add: monitor_position_shipped rule ratio)
  have zero: "exit_decision cfg (Val p) (Val 0) = ClosePosition" if "0 \<le> p"
    using that by (simp add: rule)
  show ?thesis
    using loop zero by (simp add: rule other ratio)
qed

theorem exit_rule_witness:
  "(0::real) \<le> 0 \<and> exit_decision source_manager_config (Val 0) (Val 0) = ClosePosition
   \<and> monitor_position decimal_runtime source_manager_config priced_ticker long_position
       = Some (closePosition decimal_runtime priced_ticker long_position)
   \<and> monitor_position decimal_runtime source_manager_config priced_ticker short_position = None"
  using exit_rule [of source_manager_config "Val 0" "Val 0" decimal_runtime priced_ticker
      long_position 0]
    exit_rule [of source_manager_config "Val 0" "Val 0" decimal_runtime priced_ticker
      short_position 0]
  by (simp add: monitor_position_def exit_decision_def source_manager_config_def
      long_position_def short_position_def reading)

text \<open>
  C6: the funding rate is favourable exactly when the side is LONG and the rate is
  negative, or the side is SHORT and the rate is positive. LONG with the rate -0.01 is
  favourable; a rate of zero is favourable for neither side.
\<close>

theorem funding_rule:
  "(isFundingFavorable side rate \<longleftrightarrow>
      (side = Some ''LONG'' \<and> js_lt rate (Val 0)) \<or> (side = Some ''SHORT'' \<and> js_gt rate (Val 0)))
   \<and> isFundingFavorable (Some ''LONG'') (Val (- (1 / 100)))
   \<and> \<not> isFundingFavorable (Some ''LONG'') (Val 0)
   \<and> \<not> isFundingFavorable (Some ''SHORT'') (Val 0)"
  by (simp add: isFundingFavorable_def)

theorem funding_rule_witness:
  "isFundingFavorable (Some ''SHORT'') (Val (1 / 100))
   \<and> \<not> isFundingFavorable (Some ''SHORT'') (Val (- (1 / 100)))
   \<and> \<not> isFundingFavorable (Some ''LONG'') (Val (1 / 100))"
  using funding_rule [of "Some ''SHORT''" "Val (1 / 100)"]
    funding_rule [of "Some ''SHORT''" "Val (- (1 / 100))"]
    funding_rule [of "Some ''LONG''" "Val (1 / 100)"]
  by simp

text \<open>
  C7: the exit decision is monotonic in the unrealized profit. For profits
  \<open>p1 \<le> p2\<close> with the same margin and ratio, ClosePosition at \<open>p1\<close> gives ClosePosition
  at \<open>p2\<close>, and NoAction at \<open>p2\<close> gives NoAction at \<open>p1\<close>.
\<close>

theorem exit_monotone:
  "js_le p1 p2 \<Longrightarrow>
     (exit_decision cfg p1 m = ClosePosition \<longrightarrow> exit_decision cfg p2 m = ClosePosition)
     \<and> (exit_decision cfg p2 m = ExitNoAction \<longrightarrow> exit_decision cfg p1 m = ExitNoAction)"
  by (auto simp: exit_decision_def Let_def dest: js_ge_trans_le split: if_splits)

theorem exit_monotone_witness:
  "js_le (Val 3) (Val 4)
   \<and> exit_decision source_manager_config (Val 3) (Val 100) = ClosePosition
   \<and> exit_decision source_manager_config (Val 4) (Val 100) = ClosePosition
   \<and> js_le (Val 1) (Val 2)
   \<and> exit_decision source_manager_config (Val 2) (Val 100) = ExitNoAction
   \<and> exit_decision source_manager_config (Val 1) (Val 100) = ExitNoAction"
  using exit_monotone [of "Val 3" "Val 4" source_manager_config "Val 100"]
    exit_monotone [of "Val 1" "Val 2" source_manager_config "Val 100"]
  by (simp add: exit_decision_def source_manager_config_def)

text \<open>The three ways through \<open>addMarginToPosition\<close> that concern the size of the top-up.\<close>

lemma addMargin_amount:
  assumes "addMarginToPosition rt cfg inp pos = Inr a"
  shows "\<exists>p. pos = Some p
           \<and> a = js_times (Number rt (isolatedWallet p)) (Val (supportPerPosition cfg))"
proof (cases pos)
  case None
  with assms show ?thesis by (simp add: addMarginToPosition_def)
next
  case (Some p)
  with assms have "a = js_times (Number rt (isolatedWallet p)) (Val (supportPerPosition cfg))"
    by (simp add: addMarginToPosition_def Let_def split: if_splits sum.splits option.splits)
  with Some show ?thesis by simp
qed

lemma addMargin_short_balance:
  assumes "margin_balance inp = Inr b"
    and "js_lt b (js_times (Number rt (isolatedWallet p)) (Val (supportPerPosition cfg)))"
  shows "truthy (symbol p) \<and> isolatedWallet p \<noteq> Some ''0'' \<longrightarrow>
           addMarginToPosition rt cfg inp (Some p)
             = Inl (InsufficientBalance b
                 (js_times (Number rt (isolatedWallet p)) (Val (supportPerPosition cfg))))"
    and "\<exists>e. addMarginToPosition rt cfg inp (Some p) = Inl e"
  using assms by (simp_all add: addMarginToPosition_def Let_def)

lemma addMargin_enough_balance:
  assumes "truthy (symbol p)" and "isolatedWallet p \<noteq> Some ''0''"
    and "margin_balance inp = Inr b"
    and "js_ge b (js_times (Number rt (isolatedWallet p)) (Val (supportPerPosition cfg)))"
    and "positionSideDual inp = None" and "updatedPosition inp = None"
  shows "addMarginToPosition rt cfg inp (Some p)
           = Inr (js_times (Number rt (isolatedWallet p)) (Val (supportPerPosition cfg)))"
  using assms by (simp add: addMarginToPosition_def Let_def js_ge_not_lt)

text \<open>
  C9: an addition that \<open>addMarginToPosition\<close> announces is exactly
  \<open>isolatedMargin * supportRatio\<close>. With a balance strictly below that product the body
  throws (the error names the balance and the product when the position passed the
  earlier tests) and announces no amount. With a balance at or above the product, a
  position that passes the earlier tests and requests that succeed, the product is
  announced.
\<close>

theorem top_up_sizing:
  "(addMarginToPosition rt cfg inp pos = Inr a \<longrightarrow>
      (\<exists>p. pos = Some p
         \<and> a = js_times (Number rt (isolatedWallet p)) (Val (supportPerPosition cfg))))
   \<and> (margin_balance inp = Inr b
        \<and> js_lt b (js_times (Number rt (isolatedWallet p)) (Val (supportPerPosition cfg)))
      \<longrightarrow> (\<exists>e. addMarginToPosition rt cfg inp (Some p) = Inl e))
   \<and> (truthy (symbol p) \<and> isolatedWallet p \<noteq> Some ''0'' \<and> margin_balance inp = Inr b
        \<and> js_lt b (js_times (Number rt (isolatedWallet p)) (Val (supportPerPosition cfg)))
      \<longrightarrow> addMarginToPosition rt cfg inp (Some p)
            = Inl (InsufficientBalance b
                (js_times (Number rt (isolatedWallet p)) (Val (supportPerPosition cfg)))))
   \<and> (truthy (symbol p) \<and> isolatedWallet p \<noteq> Some ''0'' \<and> margin_balance inp = Inr b
        \<and> js_ge b (js_times (Number rt (isolatedWallet p)) (Val (supportPerPosition cfg)))
        \<and> positionSideDual inp = None \<and> updatedPosition inp = None
      \<longrightarrow> addMarginToPosition rt cfg inp (Some p)
            = Inr (js_times (Number rt (isolatedWallet p)) (Val (supportPerPosition cfg))))"
  using addMargin_amount [of rt cfg inp pos a] addMargin_short_balance [of inp b rt p cfg]
    addMargin_enough_balance [of p inp b rt cfg]
  by blast

theorem top_up_sizing_witness:
  "addMarginToPosition decimal_runtime source_manager_config (margin_ok 10) (Some long_position)
     = Inr (Val 10)
   \<and> js_times (Number decimal_runtime (isolatedWallet long_position))
        (Val (supportPerPosition source_manager_config)) = Val 10
   \<and> js_lt (Val 9) (Val 10)
   \<and> addMarginToPosition decimal_runtime source_manager_config (margin_ok 9) (Some long_position)
     = Inl (InsufficientBalance (Val 9) (Val 10))"
  using top_up_sizing [of decimal_runtime source_manager_config "margin_ok 9"
      "Some long_position" "Val 10" "Val 9" long_position]
    top_up_sizing [of decimal_runtime source_manager_config "margin_ok 10"
      "Some long_position" "Val 10" "Val 10" long_position]
  by (simp add: margin_ok_def long_position_def source_manager_config_def truthy_def reading)

text \<open>The four ways through \<open>closePosition\<close>.\<close>

lemma closePosition_invalid:
  assumes "\<not> truthy (symbol p) \<or> \<not> truthy (positionAmt p) \<or> \<not> truthy (positionSide p)"
  shows "closePosition rt fetched p = Inl InvalidPositionData"
  using assms by (auto simp: closePosition_def)

lemma closePosition_zero:
  assumes "truthy (symbol p)" and "truthy (positionAmt p)" and "truthy (positionSide p)"
    and "strict_eq (js_abs (parseFloat rt (positionAmt p))) (Val 0)"
  shows "closePosition rt fetched p = Inl PositionQuantityIsZero"
  using assms by (simp add: closePosition_def)

lemma closePosition_price_error:
  assumes "truthy (symbol p)" and "truthy (positionAmt p)" and "truthy (positionSide p)"
    and "\<not> strict_eq (js_abs (parseFloat rt (positionAmt p))) (Val 0)"
    and "getMarketPrice fetched = Inl e"
  shows "closePosition rt fetched p = Inl e"
  using assms by (simp add: closePosition_def)

lemma closePosition_order:
  assumes "truthy (symbol p)" and "truthy (positionAmt p)" and "truthy (positionSide p)"
    and "\<not> strict_eq (js_abs (parseFloat rt (positionAmt p))) (Val 0)"
    and "getMarketPrice fetched = Inr price"
  shows "closePosition rt fetched p =
           Inr \<lparr> close_symbol = the (symbol p),
                 close_side = (if positionSide p = Some ''LONG'' then ''SELL'' else ''BUY''),
                 close_quantity = js_abs (parseFloat rt (positionAmt p)),
                 close_positionSide = the (positionSide p) \<rparr>"
  using assms by (simp add: closePosition_def)

text \<open>
  C10, as the code has it. If \<open>symbol\<close>, \<open>positionAmt\<close> or \<open>positionSide\<close> is missing, or
  the absolute quantity is zero, \<open>closePosition\<close> throws and sends no order. Otherwise,
  when the market price is found, it sends a market order for the absolute value of
  \<open>positionAmt\<close>, SELL when the position side is LONG and BUY when it is SHORT; when
  the price lookup throws, \<open>closePosition\<close> throws that error and sends no order.
\<close>

theorem closePosition_outcomes:
  "(\<not> truthy (symbol p) \<or> \<not> truthy (positionAmt p) \<or> \<not> truthy (positionSide p)
      \<or> strict_eq (js_abs (parseFloat rt (positionAmt p))) (Val 0)
    \<longrightarrow> (\<exists>e. closePosition rt fetched p = Inl e))
   \<and> (truthy (symbol p) \<and> truthy (positionAmt p) \<and> truthy (positionSide p)
        \<and> \<not> strict_eq (js_abs (parseFloat rt (positionAmt p))) (Val 0)
        \<and> getMarketPrice fetched = Inr price
      \<longrightarrow> (\<exists>ord. closePosition rt fetched p = Inr ord
             \<and> close_quantity ord = js_abs (parseFloat rt (positionAmt p))
             \<and> Some (close_symbol ord) = symbol p
             \<and> Some (close_positionSide ord) = positionSide p
             \<and> (positionSide p = Some ''LONG'' \<longrightarrow> close_side ord = ''SELL'')
             \<and> (positionSide p = Some ''SHORT'' \<longrightarrow> close_side ord = ''BUY'')))
   \<and> (truthy (symbol p) \<and> truthy (positionAmt p) \<and> truthy (positionSide p)
        \<and> \<not> strict_eq (js_abs (parseFloat rt (positionAmt p))) (Val 0)
        \<and> getMarketPrice fetched = Inl e
      \<longrightarrow> closePosition rt fetched p = Inl e)"
proof (intro conjI impI)
  assume "\<not> truthy (symbol p) \<or> \<not> truthy (positionAmt p) \<or> \<not> truthy (positionSide p)
      \<or> strict_eq (js_abs (parseFloat rt (positionAmt p))) (Val 0)"
  then show "\<exists>e. closePosition rt fetched p = Inl e"
    using closePosition_invalid [of p rt fetched] closePosition_zero [of p rt fetched]
    by blast
next
  assume a: "truthy (symbol p) \<and> truthy (positionAmt p) \<and> truthy (positionSide p)
        \<and> \<not> strict_eq (js_abs (parseFloat rt (positionAmt p))) (Val 0)
        \<and> getMarketPrice fetched = Inr price"
  then have "closePosition rt fetched p =
           Inr \<lparr> close_symbol = the (symbol p),
                 close_side = (if positionSide p = Some ''LONG'' then ''SELL'' else ''BUY''),
                 close_quantity = js_abs (parseFloat rt (positionAmt p)),
                 close_positionSide = the (positionSide p) \<rparr>"
    by (simp add: closePosition_order)
  moreover from a have "Some (the (symbol p)) = symbol p"
    and "Some (the (positionSide p)) = positionSide p"
    by (auto simp: truthy_def split: option.splits)
  ultimately show "\<exists>ord. closePosition rt fetched p = Inr ord
             \<and> close_quantity ord = js_abs (parseFloat rt (positionAmt p))
             \<and> Some (close_symbol ord) = symbol p
             \<and> Some (close_positionSide ord) = positionSide p
             \<and> (positionSide p = Some ''LONG'' \<longrightarrow> close_side ord = ''SELL'')
             \<and> (positionSide p = Some ''SHORT'' \<longrightarrow> close_side ord = ''BUY'')"
    by simp
next
  assume "truthy (symbol p) \<and> truthy (positionAmt p) \<and> truthy (positionSide p)
        \<and> \<not> strict_eq (js_abs (parseFloat rt (positionAmt p))) (Val 0)
        \<and> getMarketPrice fetched = Inl e"
  then show "closePosition rt fetched p = Inl e"
    by (simp add: closePosition_price_error)
qed

theorem closePosition_outcomes_witness:
  "closePosition decimal_runtime priced_ticker long_position
     = Inr \<lparr> close_symbol = ''DOGEUSDT'', close_side = ''SELL'', close_quantity = Val 5,
             close_positionSide = ''LONG'' \<rparr>
   \<and> closePosition decimal_runtime priced_ticker short_position
     = Inr \<lparr> close_symbol = ''DOGEUSDT'', close_side = ''BUY'', close_quantity = Val 5,
             close_positionSide = ''SHORT'' \<rparr>
   \<and> closePosition decimal_runtime priced_ticker (long_position \<lparr> positionAmt := Some ''0'' \<rparr>)
     = Inl PositionQuantityIsZero
   \<and> closePosition decimal_runtime priced_ticker (long_position \<lparr> positionSide := None \<rparr>)
     = Inl InvalidPositionData
   \<and> closePosition decimal_runtime unpriced_ticker long_position = Inl PriceNotFound"
  using closePosition_outcomes [of long_position decimal_runtime priced_ticker
      "PriceNumber (Val (1 / 2))"]
    closePosition_outcomes [of short_position decimal_runtime priced_ticker
      "PriceNumber (Val (1 / 2))"]
    closePosition_outcomes [of "long_position \<lparr> positionAmt := Some ''0'' \<rparr>" decimal_runtime
      priced_ticker]
    closePosition_outcomes [of "long_position \<lparr> positionSide := None \<rparr>" decimal_runtime
      priced_ticker]
    closePosition_outcomes [of long_position decimal_runtime unpriced_ticker _ PriceNotFound]
  by (simp add: closePosition_def getMarketPrice_def truthy_def
      priced_ticker_def unpriced_ticker_def long_position_def short_position_def reading)

text \<open>
  The claim C10 as it is stated (every position that passes the two tests gets its
  market order) fails: a LONG position of 5 with all three fields present, and a ticker
  that carries no price. \<open>getMarketPrice\<close> throws, \<open>closePosition\<close> throws it again,
  and no order is sent.
\<close>

theorem closePosition_counterexample:
  "truthy (symbol long_position) \<and> truthy (positionAmt long_position)
   \<and> truthy (positionSide long_position)
   \<and> \<not> strict_eq (js_abs (parseFloat decimal_runtime (positionAmt long_position))) (Val 0)
   \<and> closePosition decimal_runtime unpriced_ticker long_position = Inl PriceNotFound"
  by (simp add: closePosition_def getMarketPrice_def truthy_def
      unpriced_ticker_def long_position_def reading)

end
